theory Spec2Isabelle
  imports Main "HOL-Library.Multiset"
begin

section \<open>DNS records\<close>

text \<open>
  A DNS record as the handler of \<^verbatim>\<open>src/commands/dns.js\<close> reads it: the five fields
  \<^verbatim>\<open>line.type\<close>, \<^verbatim>\<open>line.name\<close>, \<^verbatim>\<open>line.content\<close>, \<^verbatim>\<open>line.ttl\<close> and
  \<^verbatim>\<open>line.proxied\<close> (lines 71-72). The provider writes the automatic TTL as \<open>1\<close>.
\<close>

record dns_record =
  type :: string
  name :: string
  content :: string
  ttl :: int
  proxied :: bool

subsection \<open>The two predicates of \<^verbatim>\<open>lib/shared.js\<close>\<close>

text \<open>
  Modelled from the spec: \<^verbatim>\<open>hasDNSRecord\<close> is imported from \<^verbatim>\<open>../lib/shared.js\<close>
  (line 17), which is not among the source files. Section 4.3 of the specification:
  true iff \<open>required\<close> contains a record with the same (type, name) and the same
  content and proxied flag; the TTL is not compared. The search goes through the
  required records in order and stops at the first one that fits.
\<close>

fun hasDNSRecord :: "dns_record list \<Rightarrow> dns_record \<Rightarrow> bool" where
  "hasDNSRecord [] line = False"
| "hasDNSRecord (r # required) line =
     (if type r = type line \<and> name r = name line
         \<and> content r = content line \<and> proxied r = proxied line
      then True else hasDNSRecord required line)"

text \<open>
  Modelled from the spec: \<^verbatim>\<open>hasConflictingDNSRecord\<close> is imported from
  \<^verbatim>\<open>../lib/shared.js\<close> (line 18), which is not among the source files. Section 4.3
  of the specification: true iff \<open>required\<close> contains a record with the same
  (type, name) but a different content or a different proxied flag.
\<close>

fun hasConflictingDNSRecord :: "dns_record list \<Rightarrow> dns_record \<Rightarrow> bool" where
  "hasConflictingDNSRecord [] line = False"
| "hasConflictingDNSRecord (r # required) line =
     (if type r = type line \<and> name r = name line
         \<and> (content r \<noteq> content line \<or> proxied r \<noteq> proxied line)
      then True else hasConflictingDNSRecord required line)"

section \<open>The classification loop (lines 65-82)\<close>

text \<open>
  The loop \<^verbatim>\<open>dns_records.forEach((line) => ...)\<close> pushes a line onto
  \<^verbatim>\<open>properly_proxied\<close> (and prints its row green), or onto \<^verbatim>\<open>conflicts\<close>
  (orange), or onto neither of them (white). The printed table is the only place
  where the third group shows, so the table is part of the loop's state.
\<close>

datatype colour = Green | Orange | White

record classification =
  properly_proxied :: "dns_record list"
  conflicts :: "dns_record list"
  table :: "(colour \<times> dns_record) list"

definition classify_line ::
  "dns_record list \<Rightarrow> classification \<Rightarrow> dns_record \<Rightarrow> classification" where
  "classify_line required_dns_records st line =
     (if hasDNSRecord required_dns_records line
      then st\<lparr>properly_proxied := properly_proxied st @ [line],
              table := table st @ [(Green, line)]\<rparr>
      else if hasConflictingDNSRecord required_dns_records line
      then st\<lparr>conflicts := conflicts st @ [line],
              table := table st @ [(Orange, line)]\<rparr>
      else st\<lparr>table := table st @ [(White, line)]\<rparr>)"

definition classify :: "dns_record list \<Rightarrow> dns_record list \<Rightarrow> classification" where
  "classify required_dns_records dns_records =
     foldl (classify_line required_dns_records)
       \<lparr>properly_proxied = [], conflicts = [], table = []\<rparr> dns_records"

text \<open>The lines printed in a given colour, in the order of the table.\<close>

definition rows_of :: "colour \<Rightarrow> classification \<Rightarrow> dns_record list" where
  "rows_of c st = map snd (filter (\<lambda>row. fst row = c) (table st))"

definition unrelated :: "classification \<Rightarrow> dns_record list" where
  "unrelated st = rows_of White st"

text \<open>
  The test of line 88, negated: the branch that prints
  \<^verbatim>\<open>Congrats! Page Rules should all work as expected.\<close>
\<close>

definition will_not_work :: "classification \<Rightarrow> bool" where
  "will_not_work st =
     (length (properly_proxied st) = 0 \<or> length (conflicts st) > 0)"

definition fullyMet :: "dns_record list \<Rightarrow> dns_record list \<Rightarrow> bool" where
  "fullyMet required_dns_records dns_records =
     (\<not> will_not_work (classify required_dns_records dns_records))"

section \<open>The handler's effects\<close>

text \<open>
  What the handler does to the outside once both responses have arrived, in order:
  console output, prompts, and the two record mutations
  \<^verbatim>\<open>deleteTheseDNSRecords(val, ...)\<close> and \<^verbatim>\<open>createTheseDNSRecords(val, ...)\<close>,
  each with the zone id and the list of records it is handed. \<^verbatim>\<open>error\<close> and
  \<^verbatim>\<open>warn\<close> (imported from \<^verbatim>\<open>../lib/shared.js\<close>) print a message: the handler
  goes on to print and to prompt after calling them.
\<close>

datatype effect =
    Log string
  | Error string
  | Warn string
  | PrintTable "(colour \<times> dns_record) list"
  | OutputDNSRecordsTable "dns_record list"
  | PromptList string
  | PromptConfirm string
  | DeleteTheseDNSRecords string "dns_record list"
  | CreateTheseDNSRecords string "dns_record list"

fun is_mutation :: "effect \<Rightarrow> bool" where
  "is_mutation (DeleteTheseDNSRecords val rs) = True"
| "is_mutation (CreateTheseDNSRecords val rs) = True"
| "is_mutation e = False"

definition mutations :: "effect list \<Rightarrow> effect list" where
  "mutations es = filter is_mutation es"

fun deleted :: "effect list \<Rightarrow> dns_record list" where
  "deleted [] = []"
| "deleted (DeleteTheseDNSRecords val rs # es) = rs @ deleted es"
| "deleted (e # es) = deleted es"

fun created :: "effect list \<Rightarrow> dns_record list" where
  "created [] = []"
| "created (CreateTheseDNSRecords val rs # es) = rs @ created es"
| "created (e # es) = created es"

text \<open>The answers the user gives at the two prompts.\<close>

record answers =
  whichApproach :: string
  confirmCreateIntent :: bool

text \<open>
  The \<^verbatim>\<open>switch(answers.whichApproach)\<close> of lines 104-122: \<^verbatim>\<open>'all'\<close>,
  \<^verbatim>\<open>'required'\<close>, and the default branch, which the choice \<^verbatim>\<open>'skip'\<close>
  (``Do nothing at this time.'') takes.
\<close>

definition remediate ::
  "string \<Rightarrow> string \<Rightarrow> dns_record list \<Rightarrow> dns_record list \<Rightarrow> dns_record list
     \<Rightarrow> effect list" where
  "remediate approach val dns_records conflicts_found required_dns_records =
     (if approach = ''all'' then
        [DeleteTheseDNSRecords val dns_records, Log [],
         CreateTheseDNSRecords val required_dns_records]
      else if approach = ''required'' then
        [DeleteTheseDNSRecords val conflicts_found, Log [],
         CreateTheseDNSRecords val required_dns_records]
      else [])"

text \<open>
  The branch of lines 127-142: nothing was fetched, the required records are shown
  and created once the user confirms.
\<close>

definition no_records :: "string \<Rightarrow> dns_record list \<Rightarrow> answers \<Rightarrow> effect list" where
  "no_records val required_dns_records ans =
     [Log ''There are no DNS records currently. Here is what they should be:'',
      OutputDNSRecordsTable required_dns_records,
      PromptConfirm ''Are you ready to create the missing DNS records on Cloudflare?'']
     @ (if confirmCreateIntent ans
        then [CreateTheseDNSRecords val required_dns_records] else [])"

text \<open>
  The callback of lines 55-143 from line 62 on. \<open>val\<close> is the zone id read from
  the cache, \<open>required_dns_records\<close> the value of
  \<^verbatim>\<open>buildRequiredDNSRecordsForPagerules(pagerules)\<close>, and \<open>dns_records\<close> the
  result of the first request: \<open>None\<close> is the \<^verbatim>\<open>false\<close> that line 57 puts
  in its place when the response does not report success. JavaScript reads
  \<^verbatim>\<open>false.length\<close> as \<^verbatim>\<open>undefined\<close>, and \<^verbatim>\<open>undefined > 0\<close> is false, so that
  case takes the branch of an empty list.
\<close>

definition handler ::
  "string \<Rightarrow> dns_record list option \<Rightarrow> dns_record list \<Rightarrow> answers \<Rightarrow> effect list" where
  "handler val dns_records required_dns_records ans =
     (case dns_records of
        None \<Rightarrow> no_records val required_dns_records ans
      | Some recs \<Rightarrow>
          if length recs > 0 then
            (let st = classify required_dns_records recs in
             [Log ''Current DNS records:'', PrintTable (table st), Log []]
             @ (if will_not_work st then
                  [Error ''The current DNS records will not work with the current Page Rules.'',
                   Warn ''At least these DNS records MUST be added:'',
                   OutputDNSRecordsTable required_dns_records,
                   PromptList ''How do you want to add these DNS records?'']
                  @ remediate (whichApproach ans) val recs (conflicts st)
                      required_dns_records
                else [Log ''Congrats! Page Rules should all work as expected.'']))
          else no_records val required_dns_records ans)"

section \<open>The required records\<close>

text \<open>The (type, name) pair that identifies a record for comparison.\<close>

definition slot :: "dns_record \<Rightarrow> string \<times> string" where
  "slot r = (type r, name r)"

text \<open>
  Modelled from the spec: \<^verbatim>\<open>buildRequiredDNSRecordsForPagerules\<close> (called at line
  62) is imported from \<^verbatim>\<open>../lib/shared.js\<close>, which is not among the source files.
  Section 4.2 of the specification: every Page Rule is mapped through
  \<^verbatim>\<open>requiredDNSRecordFor\<close>, and the records are deduplicated by (type, name), the
  first occurrence in rule priority order winning. The rules are taken in the order
  they are handed over, which is the order the provider lists them in, by priority.
  The specification does not say which record \<^verbatim>\<open>requiredDNSRecordFor\<close> synthesizes
  from a target pattern, so that function is a parameter.
\<close>

definition add_required ::
  "('rule \<Rightarrow> dns_record) \<Rightarrow> dns_record list \<Rightarrow> 'rule \<Rightarrow> dns_record list" where
  "add_required requiredDNSRecordFor acc rule =
     (let r = requiredDNSRecordFor rule
      in if slot r \<in> set (map slot acc) then acc else acc @ [r])"

definition buildRequiredDNSRecordsForPagerules ::
  "('rule \<Rightarrow> dns_record) \<Rightarrow> 'rule list \<Rightarrow> dns_record list" where
  "buildRequiredDNSRecordsForPagerules requiredDNSRecordFor pagerules =
     foldl (add_required requiredDNSRecordFor) [] pagerules"

section \<open>Auxiliary notions and example records\<close>

text \<open>The colour the loop prints a line in.\<close>

definition colour_of :: "dns_record list \<Rightarrow> dns_record \<Rightarrow> colour" where
  "colour_of req l =
     (if hasDNSRecord req l then Green
      else if hasConflictingDNSRecord req l then Orange else White)"

text \<open>The records of the scenarios in section 8 of the specification.\<close>

definition www_required :: dns_record where
  "www_required = \<lparr>type = ''CNAME'', name = ''www.example.com'',
     content = ''example.com'', ttl = 1, proxied = True\<rparr>"

definition www_live :: dns_record where
  "www_live = \<lparr>type = ''CNAME'', name = ''www.example.com'',
     content = ''example.com'', ttl = 300, proxied = True\<rparr>"

definition www_old_target :: dns_record where
  "www_old_target = \<lparr>type = ''CNAME'', name = ''www.example.com'',
     content = ''old-target.com'', ttl = 1, proxied = True\<rparr>"

definition shop_required :: dns_record where
  "shop_required = \<lparr>type = ''CNAME'', name = ''shop.example.com'',
     content = ''example.com'', ttl = 1, proxied = True\<rparr>"

definition shop_unproxied :: dns_record where
  "shop_unproxied = \<lparr>type = ''CNAME'', name = ''shop.example.com'',
     content = ''example.com'', ttl = 1, proxied = False\<rparr>"

definition shop_old_target :: dns_record where
  "shop_old_target = \<lparr>type = ''CNAME'', name = ''shop.example.com'',
     content = ''old-target.com'', ttl = 1, proxied = True\<rparr>"

definition mail_exchanger :: dns_record where
  "mail_exchanger = \<lparr>type = ''MX'', name = ''example.com'',
     content = ''mail.example.com'', ttl = 3600, proxied = False\<rparr>"

lemmas example_records =
  www_required_def www_live_def www_old_target_def shop_required_def
  shop_unproxied_def shop_old_target_def mail_exchanger_def

section \<open>Facts about the loop\<close>

lemma properly_proxied_foldl:
  "properly_proxied (foldl (classify_line req) st live) =
     properly_proxied st @ filter (hasDNSRecord req) live"
  by (induction live arbitrary: st) (simp_all add: classify_line_def)

lemma conflicts_foldl:
  "conflicts (foldl (classify_line req) st live) =
     conflicts st
     @ filter (\<lambda>l. \<not> hasDNSRecord req l \<and> hasConflictingDNSRecord req l) live"
  by (induction live arbitrary: st) (simp_all add: classify_line_def)

lemma table_foldl:
  "table (foldl (classify_line req) st live) =
     table st @ map (\<lambda>l. (colour_of req l, l)) live"
  by (induction live arbitrary: st) (simp_all add: classify_line_def colour_of_def)

lemma properly_proxied_classify:
  "properly_proxied (classify req live) = filter (hasDNSRecord req) live"
  by (simp add: classify_def properly_proxied_foldl)

lemma conflicts_classify:
  "conflicts (classify req live) =
     filter (\<lambda>l. \<not> hasDNSRecord req l \<and> hasConflictingDNSRecord req l) live"
  by (simp add: classify_def conflicts_foldl)

lemma table_classify:
  "table (classify req live) = map (\<lambda>l. (colour_of req l, l)) live"
  by (simp add: classify_def table_foldl)

lemma unrelated_classify:
  "unrelated (classify req live) =
     filter (\<lambda>l. \<not> hasDNSRecord req l \<and> \<not> hasConflictingDNSRecord req l) live"
proof -
  have "filter (\<lambda>row. fst row = White) (map (\<lambda>l. (colour_of req l, l)) live) =
          map (\<lambda>l. (colour_of req l, l))
            (filter (\<lambda>l. \<not> hasDNSRecord req l \<and> \<not> hasConflictingDNSRecord req l) live)"
    by (induction live) (simp_all add: colour_of_def)
  then show ?thesis
    by (simp add: unrelated_def rows_of_def table_classify o_def)
qed

lemma buckets_mset:
  "mset (properly_proxied (classify req live)) + mset (conflicts (classify req live))
     + mset (unrelated (classify req live)) = mset live"
  unfolding properly_proxied_classify conflicts_classify unrelated_classify
  by (induction live) simp_all

lemma buckets_disjoint:
  "set (properly_proxied (classify req live)) \<inter> set (conflicts (classify req live)) = {}"
  "set (properly_proxied (classify req live)) \<inter> set (unrelated (classify req live)) = {}"
  "set (conflicts (classify req live)) \<inter> set (unrelated (classify req live)) = {}"
  unfolding properly_proxied_classify conflicts_classify unrelated_classify
  by auto

lemma rows_of_Green:
  "rows_of Green (classify req live) = properly_proxied (classify req live)"
proof -
  have "map snd (filter (\<lambda>row. fst row = Green) (map (\<lambda>l. (colour_of req l, l)) live)) =
          filter (hasDNSRecord req) live"
    by (induction live) (simp_all add: colour_of_def)
  then show ?thesis
    by (simp add: rows_of_def table_classify properly_proxied_classify)
qed

lemma rows_of_Orange:
  "rows_of Orange (classify req live) = conflicts (classify req live)"
proof -
  have "map snd (filter (\<lambda>row. fst row = Orange) (map (\<lambda>l. (colour_of req l, l)) live)) =
          filter (\<lambda>l. \<not> hasDNSRecord req l \<and> hasConflictingDNSRecord req l) live"
    by (induction live) (simp_all add: colour_of_def)
  then show ?thesis
    by (simp add: rows_of_def table_classify conflicts_classify)
qed

lemma table_lines: "map snd (table (classify req live)) = live"
  by (simp add: table_classify o_def)

lemma hasDNSRecord_iff:
  "hasDNSRecord req l =
     (\<exists>r\<in>set req. type r = type l \<and> name r = name l
        \<and> content r = content l \<and> proxied r = proxied l)"
  by (induction req) auto

lemma hasConflictingDNSRecord_iff:
  "hasConflictingDNSRecord req l =
     (\<exists>r\<in>set req. type r = type l \<and> name r = name l
        \<and> (content r \<noteq> content l \<or> proxied r \<noteq> proxied l))"
  by (induction req) auto

section \<open>Facts about the handler\<close>

lemma mutations_handler_prompt:
  "live \<noteq> [] \<Longrightarrow> will_not_work (classify req live) \<Longrightarrow>
   mutations (handler val (Some live) req ans) =
     mutations (remediate (whichApproach ans) val live (conflicts (classify req live)) req)"
  by (simp add: handler_def mutations_def Let_def)

lemma mutations_handler_congrats:
  "live \<noteq> [] \<Longrightarrow> \<not> will_not_work (classify req live) \<Longrightarrow>
   mutations (handler val (Some live) req ans) = []"
  by (simp add: handler_def mutations_def Let_def)

text \<open>
  What the test of line 88 computes: some live record satisfies a requirement, and
  every live record that conflicts with one requirement satisfies another.
\<close>

lemma fullyMet_iff:
  "fullyMet req live =
     ((\<exists>l \<in> set live. hasDNSRecord req l)
      \<and> (\<forall>l \<in> set live. hasConflictingDNSRecord req l \<longrightarrow> hasDNSRecord req l))"
  by (auto simp: fullyMet_def will_not_work_def properly_proxied_classify conflicts_classify
      filter_empty_conv)

section \<open>Facts about the required records\<close>

lemma add_required_distinct:
  "distinct (map slot acc) \<Longrightarrow> distinct (map slot (add_required f acc rule))"
  by (simp add: add_required_def Let_def)

lemma foldl_add_required_distinct:
  "distinct (map slot acc) \<Longrightarrow> distinct (map slot (foldl (add_required f) acc rules))"
  by (induction rules arbitrary: acc) (simp_all add: add_required_distinct)

lemma find_append_case:
  "find P (xs @ ys) = (case find P xs of Some x \<Rightarrow> Some x | None \<Rightarrow> find P ys)"
  by (induction xs) simp_all

lemma find_slot_None: "(find (\<lambda>r. slot r = k) acc = None) = (k \<notin> set (map slot acc))"
  by (auto simp: find_None_iff)

lemma find_add_required:
  "find (\<lambda>r. slot r = k) (add_required f acc rule) =
     (case find (\<lambda>r. slot r = k) acc of
        Some x \<Rightarrow> Some x
      | None \<Rightarrow> if slot (f rule) = k then Some (f rule) else None)"
proof (cases "find (\<lambda>r. slot r = k) acc")
  case None
  then have "k \<notin> set (map slot acc)" by (simp add: find_slot_None)
  with None show ?thesis
    by (auto simp: add_required_def Let_def find_append_case)
next
  case (Some x)
  then show ?thesis
    by (simp add: add_required_def Let_def find_append_case)
qed

lemma find_foldl_add_required:
  "find (\<lambda>r. slot r = k) (foldl (add_required f) acc rules) =
     (case find (\<lambda>r. slot r = k) acc of
        Some x \<Rightarrow> Some x
      | None \<Rightarrow> find (\<lambda>r. slot r = k) (map f rules))"
proof (induction rules arbitrary: acc)
  case Nil
  then show ?case by (simp split: option.split)
next
  case (Cons rule rules)
  show ?case
    by (simp add: Cons.IH find_add_required split: option.split)
qed

section \<open>The claims\<close>

text \<open>
  C10. Whatever the classification came out as, when the user picks the choice
  \<^verbatim>\<open>'skip'\<close> (``Do nothing at this time.'') at the remediation prompt, the switch
  takes its default branch and the handler calls neither
  \<^verbatim>\<open>deleteTheseDNSRecords\<close> nor \<^verbatim>\<open>createTheseDNSRecords\<close>: the zone's records stay
  as they are.
\<close>

theorem skip_leaves_zone_unchanged:
  assumes "live \<noteq> []" and "whichApproach ans = ''skip''"
  shows "mutations (handler val (Some live) req ans) = []
         \<and> remediate (whichApproach ans) val live (conflicts (classify req live)) req = []"
proof -
  have r: "remediate (whichApproach ans) val live (conflicts (classify req live)) req = []"
    using assms(2) by (simp add: remediate_def)
  have "mutations (handler val (Some live) req ans) = []"
  proof (cases "will_not_work (classify req live)")
    case True
    then have "mutations (handler val (Some live) req ans) = mutations []"
      using assms(1) r by (simp add: mutations_handler_prompt)
    then show ?thesis by (simp add: mutations_def)
  next
    case False
    then show ?thesis using assms(1) by (simp add: mutations_handler_congrats)
  qed
  with r show ?thesis by simp
qed

theorem skip_leaves_zone_unchanged_witness:
  "[www_old_target] \<noteq> []
   \<and> whichApproach \<lparr>whichApproach = ''skip'', confirmCreateIntent = False\<rparr> = ''skip''
   \<and> will_not_work (classify [www_required] [www_old_target])
   \<and> mutations (handler ''zone-1'' (Some [www_old_target]) [www_required]
         \<lparr>whichApproach = ''skip'', confirmCreateIntent = False\<rparr>) = []"
  using skip_leaves_zone_unchanged [of "[www_old_target]"
      "\<lparr>whichApproach = ''skip'', confirmCreateIntent = False\<rparr>" "''zone-1''" "[www_required]"]
  by (simp add: will_not_work_def classify_def classify_line_def www_required_def
      www_old_target_def)

text \<open>
  C5. The required-only plan (the branch \<^verbatim>\<open>case 'required'\<close>, lines 111-119) deletes
  exactly the records of the conflicting bucket and then creates exactly the required
  records; nothing it deletes is an unrelated live record or a live record that
  already satisfies a requirement. When the prompt is shown and the user picks
  \<^verbatim>\<open>'required'\<close>, these two calls are all the handler changes.
\<close>

theorem required_only_plan:
  "remediate ''required'' val live (conflicts (classify req live)) req =
     [DeleteTheseDNSRecords val (conflicts (classify req live)), Log [],
      CreateTheseDNSRecords val req]
   \<and> deleted (remediate ''required'' val live (conflicts (classify req live)) req) =
       conflicts (classify req live)
   \<and> created (remediate ''required'' val live (conflicts (classify req live)) req) = req
   \<and> set (deleted (remediate ''required'' val live (conflicts (classify req live)) req))
       \<inter> set (unrelated (classify req live)) = {}
   \<and> set (deleted (remediate ''required'' val live (conflicts (classify req live)) req))
       \<inter> set (properly_proxied (classify req live)) = {}
   \<and> (live \<noteq> [] \<and> will_not_work (classify req live) \<and> whichApproach ans = ''required''
        \<longrightarrow> mutations (handler val (Some live) req ans) =
              [DeleteTheseDNSRecords val (conflicts (classify req live)),
               CreateTheseDNSRecords val req])"
proof -
  let ?st = "classify req live"
  have plan: "remediate ''required'' val live (conflicts ?st) req =
      [DeleteTheseDNSRecords val (conflicts ?st), Log [], CreateTheseDNSRecords val req]"
    by (simp add: remediate_def)
  have del: "deleted (remediate ''required'' val live (conflicts ?st) req) = conflicts ?st"
    by (simp add: plan)
  have cre: "created (remediate ''required'' val live (conflicts ?st) req) = req"
    by (simp add: plan)
  have d1: "set (conflicts ?st) \<inter> set (unrelated ?st) = {}"
    by (rule buckets_disjoint(3))
  have d2: "set (conflicts ?st) \<inter> set (properly_proxied ?st) = {}"
    using buckets_disjoint(1) [of req live] by blast
  have h: "mutations (handler val (Some live) req ans) =
             [DeleteTheseDNSRecords val (conflicts ?st), CreateTheseDNSRecords val req]"
    if "live \<noteq> []" "will_not_work ?st" "whichApproach ans = ''required''"
  proof -
    have "mutations (handler val (Some live) req ans) =
            mutations (remediate ''required'' val live (conflicts ?st) req)"
      using that by (simp add: mutations_handler_prompt)
    then show ?thesis by (simp add: plan mutations_def)
  qed
  show ?thesis
    using plan del cre d1 d2 h by simp
qed

theorem required_only_plan_witness:
  "will_not_work (classify [www_required, shop_required]
      [www_live, shop_old_target, mail_exchanger])
   \<and> remediate ''required'' ''zone-1'' [www_live, shop_old_target, mail_exchanger]
      (conflicts (classify [www_required, shop_required]
         [www_live, shop_old_target, mail_exchanger])) [www_required, shop_required] =
     [DeleteTheseDNSRecords ''zone-1'' [shop_old_target], Log [],
      CreateTheseDNSRecords ''zone-1'' [www_required, shop_required]]
   \<and> mutations (handler ''zone-1'' (Some [www_live, shop_old_target, mail_exchanger])
        [www_required, shop_required]
        \<lparr>whichApproach = ''required'', confirmCreateIntent = False\<rparr>) =
     [DeleteTheseDNSRecords ''zone-1'' [shop_old_target],
      CreateTheseDNSRecords ''zone-1'' [www_required, shop_required]]
   \<and> unrelated (classify [www_required, shop_required]
         [www_live, shop_old_target, mail_exchanger]) = [mail_exchanger]
   \<and> properly_proxied (classify [www_required, shop_required]
         [www_live, shop_old_target, mail_exchanger]) = [www_live]"
proof -
  have c: "conflicts (classify [www_required, shop_required]
         [www_live, shop_old_target, mail_exchanger]) = [shop_old_target]"
    by (simp add: conflicts_classify example_records)
  have p: "properly_proxied (classify [www_required, shop_required]
         [www_live, shop_old_target, mail_exchanger]) = [www_live]"
    by (simp add: properly_proxied_classify example_records)
  have u: "unrelated (classify [www_required, shop_required]
         [www_live, shop_old_target, mail_exchanger]) = [mail_exchanger]"
    by (simp add: unrelated_classify example_records)
  have w: "will_not_work (classify [www_required, shop_required]
         [www_live, shop_old_target, mail_exchanger])"
    by (simp add: will_not_work_def c)
  show ?thesis
    using required_only_plan [of "''zone-1''" "[www_live, shop_old_target, mail_exchanger]"
        "[www_required, shop_required]"
        "\<lparr>whichApproach = ''required'', confirmCreateIntent = False\<rparr>"] w
    by (simp add: c p u)
qed

text \<open>
  C6. The replace-all plan (the branch \<^verbatim>\<open>case 'all'\<close>, lines 105-110) deletes every
  live record of the zone, the satisfying, the conflicting and the unrelated ones
  alike (an MX record no Page Rule needs included), and then creates every required
  record.
\<close>

theorem replace_all_plan:
  "remediate ''all'' val live (conflicts (classify req live)) req =
     [DeleteTheseDNSRecords val live, Log [], CreateTheseDNSRecords val req]
   \<and> deleted (remediate ''all'' val live (conflicts (classify req live)) req) = live
   \<and> created (remediate ''all'' val live (conflicts (classify req live)) req) = req
   \<and> mset (deleted (remediate ''all'' val live (conflicts (classify req live)) req)) =
       mset (properly_proxied (classify req live)) + mset (conflicts (classify req live))
         + mset (unrelated (classify req live))
   \<and> (live \<noteq> [] \<and> will_not_work (classify req live) \<and> whichApproach ans = ''all''
        \<longrightarrow> mutations (handler val (Some live) req ans) =
              [DeleteTheseDNSRecords val live, CreateTheseDNSRecords val req])"
proof -
  let ?st = "classify req live"
  have plan: "remediate ''all'' val live (conflicts ?st) req =
      [DeleteTheseDNSRecords val live, Log [], CreateTheseDNSRecords val req]"
    by (simp add: remediate_def)
  have del: "deleted (remediate ''all'' val live (conflicts ?st) req) = live"
    by (simp add: plan)
  have cre: "created (remediate ''all'' val live (conflicts ?st) req) = req"
    by (simp add: plan)
  have all: "mset (deleted (remediate ''all'' val live (conflicts ?st) req)) =
      mset (properly_proxied ?st) + mset (conflicts ?st) + mset (unrelated ?st)"
    by (simp only: del buckets_mset)
  have h: "mutations (handler val (Some live) req ans) =
             [DeleteTheseDNSRecords val live, CreateTheseDNSRecords val req]"
    if "live \<noteq> []" "will_not_work ?st" "whichApproach ans = ''all''"
  proof -
    have "mutations (handler val (Some live) req ans) =
            mutations (remediate ''all'' val live (conflicts ?st) req)"
      using that by (simp add: mutations_handler_prompt)
    then show ?thesis by (simp add: plan mutations_def)
  qed
  show ?thesis
    using plan del cre all h by simp
qed

theorem replace_all_plan_witness:
  "will_not_work (classify [www_required, shop_required]
      [www_live, shop_old_target, mail_exchanger])
   \<and> unrelated (classify [www_required, shop_required]
         [www_live, shop_old_target, mail_exchanger]) = [mail_exchanger]
   \<and> mutations (handler ''zone-1'' (Some [www_live, shop_old_target, mail_exchanger])
        [www_required, shop_required]
        \<lparr>whichApproach = ''all'', confirmCreateIntent = False\<rparr>) =
     [DeleteTheseDNSRecords ''zone-1'' [www_live, shop_old_target, mail_exchanger],
      CreateTheseDNSRecords ''zone-1'' [www_required, shop_required]]"
proof -
  have c: "conflicts (classify [www_required, shop_required]
         [www_live, shop_old_target, mail_exchanger]) = [shop_old_target]"
    by (simp add: conflicts_classify example_records)
  have u: "unrelated (classify [www_required, shop_required]
         [www_live, shop_old_target, mail_exchanger]) = [mail_exchanger]"
    by (simp add: unrelated_classify example_records)
  have w: "will_not_work (classify [www_required, shop_required]
         [www_live, shop_old_target, mail_exchanger])"
    by (simp add: will_not_work_def c)
  show ?thesis
    using replace_all_plan [of "''zone-1''" "[www_live, shop_old_target, mail_exchanger]"
        "[www_required, shop_required]"
        "\<lparr>whichApproach = ''all'', confirmCreateIntent = False\<rparr>"] w u
    by simp
qed

text \<open>
  C2. The loop of lines 70-82 partitions the live records: the table has one row for
  each live record, in order, each in exactly one colour; the satisfying bucket is
  the green rows, the conflicting bucket the orange rows, the unrelated records the
  white rows; the three together are the live records, and no record is in two of
  them. A live record whose (type, name) is that of no required record is unrelated:
  it is neither in the satisfying nor in the conflicting bucket.
\<close>

theorem classification_is_partition:
  "map snd (table (classify req live)) = live
   \<and> properly_proxied (classify req live) = rows_of Green (classify req live)
   \<and> conflicts (classify req live) = rows_of Orange (classify req live)
   \<and> unrelated (classify req live) = rows_of White (classify req live)
   \<and> mset (properly_proxied (classify req live)) + mset (conflicts (classify req live))
       + mset (unrelated (classify req live)) = mset live
   \<and> set (properly_proxied (classify req live)) \<inter> set (conflicts (classify req live)) = {}
   \<and> set (properly_proxied (classify req live)) \<inter> set (unrelated (classify req live)) = {}
   \<and> set (conflicts (classify req live)) \<inter> set (unrelated (classify req live)) = {}
   \<and> (\<forall>l \<in> set live. (\<forall>r \<in> set req. \<not> (type r = type l \<and> name r = name l))
        \<longrightarrow> l \<in> set (unrelated (classify req live))
            \<and> l \<notin> set (properly_proxied (classify req live))
            \<and> l \<notin> set (conflicts (classify req live)))"
proof -
  have nowhere: "l \<in> set (unrelated (classify req live))
      \<and> l \<notin> set (properly_proxied (classify req live))
      \<and> l \<notin> set (conflicts (classify req live))"
    if "l \<in> set live" "\<forall>r \<in> set req. \<not> (type r = type l \<and> name r = name l)" for l
  proof -
    from that(2) have "\<not> hasDNSRecord req l" "\<not> hasConflictingDNSRecord req l"
      by (auto simp: hasDNSRecord_iff hasConflictingDNSRecord_iff)
    with that(1) show ?thesis
      by (simp add: unrelated_classify properly_proxied_classify conflicts_classify)
  qed
  show ?thesis
    using table_lines [of req live] rows_of_Green [of req live] rows_of_Orange [of req live]
      buckets_mset [of req live] buckets_disjoint [of req live] nowhere
    by (simp add: unrelated_def)
qed

theorem classification_is_partition_witness:
  "mail_exchanger \<in> set [www_live, shop_old_target, mail_exchanger]
   \<and> type www_required \<noteq> type mail_exchanger
   \<and> name shop_required \<noteq> name mail_exchanger
   \<and> table (classify [www_required, shop_required]
        [www_live, shop_old_target, mail_exchanger]) =
       [(Green, www_live), (Orange, shop_old_target), (White, mail_exchanger)]
   \<and> mail_exchanger \<in> set (unrelated (classify [www_required, shop_required]
        [www_live, shop_old_target, mail_exchanger]))
   \<and> mail_exchanger \<notin> set (properly_proxied (classify [www_required, shop_required]
        [www_live, shop_old_target, mail_exchanger]))
   \<and> mail_exchanger \<notin> set (conflicts (classify [www_required, shop_required]
        [www_live, shop_old_target, mail_exchanger]))"
proof -
  have t: "table (classify [www_required, shop_required]
        [www_live, shop_old_target, mail_exchanger]) =
       [(Green, www_live), (Orange, shop_old_target), (White, mail_exchanger)]"
    by (simp add: table_classify colour_of_def example_records)
  have n: "\<forall>r \<in> set [www_required, shop_required].
      \<not> (type r = type mail_exchanger \<and> name r = name mail_exchanger)"
    by (simp add: example_records)
  have m: "mail_exchanger \<in> set [www_live, shop_old_target, mail_exchanger]"
    by simp
  have e: "type www_required \<noteq> type mail_exchanger \<and> name shop_required \<noteq> name mail_exchanger"
    by (simp add: example_records)
  from classification_is_partition [of "[www_required, shop_required]"
        "[www_live, shop_old_target, mail_exchanger]"] n m
  have "mail_exchanger \<in> set (unrelated (classify [www_required, shop_required]
        [www_live, shop_old_target, mail_exchanger]))
     \<and> mail_exchanger \<notin> set (properly_proxied (classify [www_required, shop_required]
        [www_live, shop_old_target, mail_exchanger]))
     \<and> mail_exchanger \<notin> set (conflicts (classify [www_required, shop_required]
        [www_live, shop_old_target, mail_exchanger]))"
    by blast
  with t m e show ?thesis by blast
qed

text \<open>
  C3. \<^verbatim>\<open>hasDNSRecord\<close> is true exactly when the required set holds a record with
  the same (type, name), the same content and the same proxied flag as the live
  record. The TTL is never compared: changing the TTL of the live record, or of the
  required records, does not change the answer.
\<close>

theorem hasDNSRecord_ignores_ttl:
  "hasDNSRecord required line =
     (\<exists>r \<in> set required. type r = type line \<and> name r = name line
        \<and> content r = content line \<and> proxied r = proxied line)
   \<and> hasDNSRecord required (line\<lparr>ttl := t\<rparr>) = hasDNSRecord required line
   \<and> hasDNSRecord (map (\<lambda>r. r\<lparr>ttl := f r\<rparr>) required) line = hasDNSRecord required line"
proof -
  have a: "hasDNSRecord required (line\<lparr>ttl := t\<rparr>) = hasDNSRecord required line"
    by (induction required) simp_all
  have b: "hasDNSRecord (map (\<lambda>r. r\<lparr>ttl := f r\<rparr>) required) line = hasDNSRecord required line"
    by (induction required) simp_all
  show ?thesis
    using a b hasDNSRecord_iff [of required line] by simp
qed

theorem hasDNSRecord_ignores_ttl_witness:
  "www_required \<in> set [shop_required, www_required]
   \<and> ttl www_required \<noteq> ttl www_live
   \<and> www_live = www_required\<lparr>ttl := 300\<rparr>
   \<and> hasDNSRecord [shop_required, www_required] www_live
   \<and> hasDNSRecord [shop_required, www_required] www_required
   \<and> \<not> hasDNSRecord [shop_required, www_required] www_old_target
   \<and> \<not> hasDNSRecord [shop_required, www_required] shop_unproxied"
proof -
  have e: "www_live = www_required\<lparr>ttl := 300\<rparr>"
    by (simp add: example_records)
  have "hasDNSRecord [shop_required, www_required] (www_required\<lparr>ttl := 300\<rparr>) =
          hasDNSRecord [shop_required, www_required] www_required"
    using hasDNSRecord_ignores_ttl [of "[shop_required, www_required]" www_required 300]
    by blast
  then show ?thesis
    by (simp add: example_records)
qed

text \<open>
  C8. Scenario A: the one required record is the proxied CNAME of
  \<^verbatim>\<open>www.example.com\<close> to \<^verbatim>\<open>example.com\<close> and there is no live record. Nothing
  is classified as conflicting, the requirement is not met (the test of line 88
  holds of the empty buckets, and the handler takes the branch of lines 127-142
  instead of congratulating), the one record is shown as the missing one, and on
  confirmation exactly that record is created and none deleted. The required-only
  plan on the same input creates that record and deletes no record either.
\<close>

theorem scenario_no_live_records:
  "classify [www_required] [] = \<lparr>properly_proxied = [], conflicts = [], table = []\<rparr>
   \<and> fullyMet [www_required] [] = False
   \<and> handler val (Some []) [www_required] (ans\<lparr>confirmCreateIntent := True\<rparr>) =
       [Log ''There are no DNS records currently. Here is what they should be:'',
        OutputDNSRecordsTable [www_required],
        PromptConfirm ''Are you ready to create the missing DNS records on Cloudflare?'',
        CreateTheseDNSRecords val [www_required]]
   \<and> mutations (handler val (Some []) [www_required] (ans\<lparr>confirmCreateIntent := True\<rparr>)) =
       [CreateTheseDNSRecords val [www_required]]
   \<and> deleted (handler val (Some []) [www_required] (ans\<lparr>confirmCreateIntent := True\<rparr>)) = []
   \<and> created (remediate ''required'' val [] (conflicts (classify [www_required] []))
        [www_required]) = [www_required]
   \<and> deleted (remediate ''required'' val [] (conflicts (classify [www_required] []))
        [www_required]) = []"
proof -
  have c: "classify [www_required] [] = \<lparr>properly_proxied = [], conflicts = [], table = []\<rparr>"
    by (simp add: classify_def)
  have f: "fullyMet [www_required] [] = False"
    by (simp add: fullyMet_def will_not_work_def c)
  have h: "handler val (Some []) [www_required] (ans\<lparr>confirmCreateIntent := True\<rparr>) =
       [Log ''There are no DNS records currently. Here is what they should be:'',
        OutputDNSRecordsTable [www_required],
        PromptConfirm ''Are you ready to create the missing DNS records on Cloudflare?'',
        CreateTheseDNSRecords val [www_required]]"
    by (simp add: handler_def no_records_def)
  have m: "mutations (handler val (Some []) [www_required]
      (ans\<lparr>confirmCreateIntent := True\<rparr>)) = [CreateTheseDNSRecords val [www_required]]"
    by (simp only: h mutations_def filter.simps is_mutation.simps if_True if_False)
  have d: "deleted (handler val (Some []) [www_required]
      (ans\<lparr>confirmCreateIntent := True\<rparr>)) = []"
    by (simp only: h deleted.simps append_Nil)
  have r: "remediate ''required'' val [] (conflicts (classify [www_required] []))
      [www_required] =
      [DeleteTheseDNSRecords val [], Log [], CreateTheseDNSRecords val [www_required]]"
    by (simp add: remediate_def c)
  have rc: "created (remediate ''required'' val [] (conflicts (classify [www_required] []))
        [www_required]) = [www_required]"
    by (simp only: r created.simps append_Nil append_Nil2)
  have rd: "deleted (remediate ''required'' val [] (conflicts (classify [www_required] []))
        [www_required]) = []"
    by (simp only: r deleted.simps append_Nil)
  from c f h m d rc rd show ?thesis by blast
qed

theorem scenario_no_live_records_witness:
  "handler ''zone-1'' (Some []) [www_required]
      \<lparr>whichApproach = [], confirmCreateIntent = True\<rparr> =
       [Log ''There are no DNS records currently. Here is what they should be:'',
        OutputDNSRecordsTable [www_required],
        PromptConfirm ''Are you ready to create the missing DNS records on Cloudflare?'',
        CreateTheseDNSRecords ''zone-1'' [www_required]]
   \<and> conflicts (classify [www_required] []) = []
   \<and> \<not> fullyMet [www_required] []"
  using scenario_no_live_records [of "''zone-1''"
      "\<lparr>whichApproach = [], confirmCreateIntent = True\<rparr>"]
  by simp

text \<open>
  C1, at the input where the code departs from it. Two records are required, for
  \<^verbatim>\<open>www.example.com\<close> and for \<^verbatim>\<open>shop.example.com\<close>; the zone has the first only.
  No live record matches the second requirement, and yet the test of line 88 lets
  the handler print that the Page Rules should all work, without any prompt: one
  satisfied requirement and no conflict are enough for it.
\<close>

theorem congrats_with_missing_record:
  "fullyMet [www_required, shop_required] [www_live]
   \<and> conflicts (classify [www_required, shop_required] [www_live]) = []
   \<and> filter (\<lambda>l. type l = type shop_required \<and> name l = name shop_required
         \<and> content l = content shop_required \<and> proxied l = proxied shop_required)
       [www_live] = []
   \<and> handler ''zone-1'' (Some [www_live]) [www_required, shop_required]
        \<lparr>whichApproach = ''required'', confirmCreateIntent = True\<rparr> =
       [Log ''Current DNS records:'', PrintTable [(Green, www_live)], Log [],
        Log ''Congrats! Page Rules should all work as expected.'']"
proof -
  have c: "classify [www_required, shop_required] [www_live] =
      \<lparr>properly_proxied = [www_live], conflicts = [], table = [(Green, www_live)]\<rparr>"
    by (simp add: classify_def classify_line_def example_records)
  have f: "fullyMet [www_required, shop_required] [www_live]"
    by (simp add: fullyMet_def will_not_work_def c)
  have n: "filter (\<lambda>l. type l = type shop_required \<and> name l = name shop_required
         \<and> content l = content shop_required \<and> proxied l = proxied shop_required)
       [www_live] = []"
    by (simp add: example_records)
  have h: "handler ''zone-1'' (Some [www_live]) [www_required, shop_required]
        \<lparr>whichApproach = ''required'', confirmCreateIntent = True\<rparr> =
       [Log ''Current DNS records:'', PrintTable [(Green, www_live)], Log [],
        Log ''Congrats! Page Rules should all work as expected.'']"
    by (simp add: handler_def c will_not_work_def)
  from c f n h show ?thesis by simp
qed

text \<open>
  C7 as the specification states it fails: here the zone has an exact match for the
  required record of \<^verbatim>\<open>www.example.com\<close> and a conflicting record for
  \<^verbatim>\<open>shop.example.com\<close>. The handler reports that the records will not work, and
  the replace-all plan deletes the exact match and creates the record again.
\<close>

theorem exact_match_still_replaced:
  "hasDNSRecord [www_required, shop_required] www_live
   \<and> www_live \<in> set (properly_proxied
        (classify [www_required, shop_required] [www_live, shop_old_target]))
   \<and> handler ''zone-1'' (Some [www_live, shop_old_target]) [www_required, shop_required]
        \<lparr>whichApproach = ''all'', confirmCreateIntent = False\<rparr> =
       [Log ''Current DNS records:'',
        PrintTable [(Green, www_live), (Orange, shop_old_target)], Log [],
        Error ''The current DNS records will not work with the current Page Rules.'',
        Warn ''At least these DNS records MUST be added:'',
        OutputDNSRecordsTable [www_required, shop_required],
        PromptList ''How do you want to add these DNS records?'',
        DeleteTheseDNSRecords ''zone-1'' [www_live, shop_old_target], Log [],
        CreateTheseDNSRecords ''zone-1'' [www_required, shop_required]]
   \<and> www_live \<in> set (deleted (handler ''zone-1'' (Some [www_live, shop_old_target])
        [www_required, shop_required]
        \<lparr>whichApproach = ''all'', confirmCreateIntent = False\<rparr>))
   \<and> www_required \<in> set (created (handler ''zone-1'' (Some [www_live, shop_old_target])
        [www_required, shop_required]
        \<lparr>whichApproach = ''all'', confirmCreateIntent = False\<rparr>))
   \<and> fullyMet [www_required, shop_required] [www_live, shop_old_target] = False"
proof -
  have c: "classify [www_required, shop_required] [www_live, shop_old_target] =
      \<lparr>properly_proxied = [www_live], conflicts = [shop_old_target],
       table = [(Green, www_live), (Orange, shop_old_target)]\<rparr>"
    by (simp add: classify_def classify_line_def example_records)
  have m: "hasDNSRecord [www_required, shop_required] www_live"
    by (simp add: example_records)
  have h: "handler ''zone-1'' (Some [www_live, shop_old_target]) [www_required, shop_required]
        \<lparr>whichApproach = ''all'', confirmCreateIntent = False\<rparr> =
       [Log ''Current DNS records:'',
        PrintTable [(Green, www_live), (Orange, shop_old_target)], Log [],
        Error ''The current DNS records will not work with the current Page Rules.'',
        Warn ''At least these DNS records MUST be added:'',
        OutputDNSRecordsTable [www_required, shop_required],
        PromptList ''How do you want to add these DNS records?'',
        DeleteTheseDNSRecords ''zone-1'' [www_live, shop_old_target], Log [],
        CreateTheseDNSRecords ''zone-1'' [www_required, shop_required]]"
    by (simp add: handler_def c will_not_work_def remediate_def)
  have f: "fullyMet [www_required, shop_required] [www_live, shop_old_target] = False"
    by (simp add: fullyMet_def will_not_work_def c)
  show ?thesis
    unfolding h using m f by (simp add: c)
qed

text \<open>
  C7, amended. When the live records contain an exact match for a required record
  (same type, name, content and proxied flag), that live record is classified as
  satisfying and not as conflicting, and the required-only plan does not delete it.
  If moreover every required record has an exact match among the live records and
  no live record is conflicting, the handler reports the Page Rules as working and
  issues no deletion and no creation at all. The replace-all plan, when it is
  chosen, deletes every live record, the exact match included, and creates every
  required record.
\<close>

theorem exact_match_kept_by_required_only:
  assumes "l \<in> set live" and "r \<in> set req"
    and "type l = type r" and "name l = name r"
    and "content l = content r" and "proxied l = proxied r"
  shows "l \<in> set (properly_proxied (classify req live))
    \<and> l \<notin> set (conflicts (classify req live))
    \<and> l \<notin> set (deleted (remediate ''required'' val live (conflicts (classify req live)) req))
    \<and> ((\<forall>q \<in> set req. \<exists>m \<in> set live. type m = type q \<and> name m = name q
            \<and> content m = content q \<and> proxied m = proxied q)
         \<and> conflicts (classify req live) = [] \<longrightarrow>
         handler val (Some live) req ans =
           [Log ''Current DNS records:'', PrintTable (table (classify req live)), Log [],
            Log ''Congrats! Page Rules should all work as expected.'']
         \<and> mutations (handler val (Some live) req ans) = [])
    \<and> deleted (remediate ''all'' val live (conflicts (classify req live)) req) = live
    \<and> created (remediate ''all'' val live (conflicts (classify req live)) req) = req"
proof -
  have has: "hasDNSRecord req l"
    using assms(2-6) by (auto simp: hasDNSRecord_iff)
  have pp: "l \<in> set (properly_proxied (classify req live))"
    using has assms(1) by (simp add: properly_proxied_classify)
  have nc: "l \<notin> set (conflicts (classify req live))"
    using has by (simp add: conflicts_classify)
  have nd: "l \<notin> set (deleted (remediate ''required'' val live
      (conflicts (classify req live)) req))"
    using nc by (simp add: remediate_def)
  have ne: "live \<noteq> []"
    using assms(1) by auto
  have met: "handler val (Some live) req ans =
           [Log ''Current DNS records:'', PrintTable (table (classify req live)), Log [],
            Log ''Congrats! Page Rules should all work as expected.'']
         \<and> mutations (handler val (Some live) req ans) = []"
    if "\<forall>q \<in> set req. \<exists>m \<in> set live. type m = type q \<and> name m = name q
            \<and> content m = content q \<and> proxied m = proxied q"
      and "conflicts (classify req live) = []"
  proof -
    have "properly_proxied (classify req live) \<noteq> []"
      using pp by auto
    with that(2) have w: "\<not> will_not_work (classify req live)"
      by (simp add: will_not_work_def)
    have "handler val (Some live) req ans =
           [Log ''Current DNS records:'', PrintTable (table (classify req live)), Log [],
            Log ''Congrats! Page Rules should all work as expected.'']"
      using w ne by (simp add: handler_def Let_def)
    moreover have "mutations (handler val (Some live) req ans) = []"
      using w ne by (simp add: mutations_handler_congrats)
    ultimately show ?thesis by simp
  qed
  have da: "deleted (remediate ''all'' val live (conflicts (classify req live)) req) = live"
    by (simp add: remediate_def)
  have ca: "created (remediate ''all'' val live (conflicts (classify req live)) req) = req"
    by (simp add: remediate_def)
  from pp nc nd met da ca show ?thesis by blast
qed

theorem exact_match_kept_by_required_only_witness:
  "www_live \<in> set [www_live, shop_required, mail_exchanger]
   \<and> www_required \<in> set [www_required, shop_required]
   \<and> type www_live = type www_required \<and> name www_live = name www_required
   \<and> content www_live = content www_required \<and> proxied www_live = proxied www_required
   \<and> hasDNSRecord [www_live, shop_required, mail_exchanger] www_required
   \<and> hasDNSRecord [www_live, shop_required, mail_exchanger] shop_required
   \<and> conflicts (classify [www_required, shop_required]
        [www_live, shop_required, mail_exchanger]) = []
   \<and> www_live \<in> set (properly_proxied (classify [www_required, shop_required]
        [www_live, shop_required, mail_exchanger]))
   \<and> mutations (handler ''zone-1'' (Some [www_live, shop_required, mail_exchanger])
        [www_required, shop_required]
        \<lparr>whichApproach = ''all'', confirmCreateIntent = True\<rparr>) = []"
proof -
  have c: "conflicts (classify [www_required, shop_required]
        [www_live, shop_required, mail_exchanger]) = []"
    by (simp add: conflicts_classify example_records)
  have e: "www_live \<in> set [www_live, shop_required, mail_exchanger]"
    "www_required \<in> set [www_required, shop_required]"
    "type www_live = type www_required" "name www_live = name www_required"
    "content www_live = content www_required" "proxied www_live = proxied www_required"
    by (simp_all add: example_records)
  have a: "\<forall>q \<in> set [www_required, shop_required].
      \<exists>m \<in> set [www_live, shop_required, mail_exchanger].
        type m = type q \<and> name m = name q \<and> content m = content q \<and> proxied m = proxied q"
    by (simp add: example_records)
  have h: "hasDNSRecord [www_live, shop_required, mail_exchanger] www_required"
    "hasDNSRecord [www_live, shop_required, mail_exchanger] shop_required"
    by (simp_all add: example_records)
  from exact_match_kept_by_required_only [OF e, of "''zone-1''"
      "\<lparr>whichApproach = ''all'', confirmCreateIntent = True\<rparr>"] a c
  have "www_live \<in> set (properly_proxied (classify [www_required, shop_required]
        [www_live, shop_required, mail_exchanger]))
    \<and> mutations (handler ''zone-1'' (Some [www_live, shop_required, mail_exchanger])
        [www_required, shop_required]
        \<lparr>whichApproach = ''all'', confirmCreateIntent = True\<rparr>) = []"
    by blast
  with c e h show ?thesis by blast
qed

text \<open>
  C4. \<^verbatim>\<open>buildRequiredDNSRecordsForPagerules\<close> yields at most one record for each
  (type, name) pair, and the record kept for a pair is the one of the first rule, in
  the order of the list, that implies a record for that pair. Two rules for
  \<^verbatim>\<open>shop.example.com\<close> with differing proxied flags give one record, with the
  first rule's flag.
\<close>

theorem required_records_deduplicated:
  "distinct (map slot (buildRequiredDNSRecordsForPagerules requiredDNSRecordFor pagerules))
   \<and> find (\<lambda>r. slot r = k)
        (buildRequiredDNSRecordsForPagerules requiredDNSRecordFor pagerules) =
       find (\<lambda>r. slot r = k) (map requiredDNSRecordFor pagerules)"
  by (simp add: buildRequiredDNSRecordsForPagerules_def foldl_add_required_distinct
      find_foldl_add_required)

theorem required_records_deduplicated_witness:
  "buildRequiredDNSRecordsForPagerules (\<lambda>rule. rule)
      [www_required, shop_required, shop_unproxied] = [www_required, shop_required]
   \<and> buildRequiredDNSRecordsForPagerules (\<lambda>rule. rule)
      [shop_unproxied, www_required, shop_required] = [shop_unproxied, www_required]
   \<and> find (\<lambda>r. slot r = (''CNAME'', ''shop.example.com''))
        (buildRequiredDNSRecordsForPagerules (\<lambda>rule. rule)
           [www_required, shop_required, shop_unproxied]) = Some shop_required"
proof -
  have a: "buildRequiredDNSRecordsForPagerules (\<lambda>rule. rule)
      [www_required, shop_required, shop_unproxied] = [www_required, shop_required]"
    by (simp add: buildRequiredDNSRecordsForPagerules_def add_required_def slot_def
        example_records)
  have b: "buildRequiredDNSRecordsForPagerules (\<lambda>rule. rule)
      [shop_unproxied, www_required, shop_required] = [shop_unproxied, www_required]"
    by (simp add: buildRequiredDNSRecordsForPagerules_def add_required_def slot_def
        example_records)
  have "find (\<lambda>r. slot r = (''CNAME'', ''shop.example.com''))
        (buildRequiredDNSRecordsForPagerules (\<lambda>rule. rule)
           [www_required, shop_required, shop_unproxied]) =
      find (\<lambda>r. slot r = (''CNAME'', ''shop.example.com''))
        (map (\<lambda>rule. rule) [www_required, shop_required, shop_unproxied])"
    using required_records_deduplicated [of "\<lambda>rule. rule"
        "[www_required, shop_required, shop_unproxied]" "(''CNAME'', ''shop.example.com'')"]
    by blast
  also have "\<dots> = Some shop_required"
    by (simp add: slot_def example_records)
  finally show ?thesis using a b by simp
qed

end
